theory Spec2Isabelle
  imports Complex_Main
begin

section \<open>Number model and errors\<close>

text \<open>
  The calculators work on Python numbers. A Python \<^verbatim>\<open>float\<close> is modelled by a
  \<^typ>\<open>real\<close> and every arithmetic operation is exact: rounding and the overflow of
  IEEE-754 doubles to infinity are outside this model. Exceptions are values of
  \<open>error + 'a\<close>, with \<open>Inl\<close> for the raised exception and its message.
\<close>

datatype error =
    ValueError string
  | TypeError string
  | KeyError string

section \<open>Loan calculator (pages/2 Loan Calculator)\<close>

subsection \<open>The fixed periodic payment\<close>

text \<open>
  \<^verbatim>\<open>numpy_financial.pmt(rate, nper, pv)\<close> is a call into an external library
  (\<^verbatim>\<open>fv = 0\<close>, \<^verbatim>\<open>when = 'end'\<close>). Its body is
  \<^verbatim>\<open>
    temp = (1 + rate)**nper
    fact = nper if rate == 0 else (1 + rate*when)*(temp - 1)/rate
    return -(fv + pv*temp)/fact
  \<close>
\<close>

definition npf_pmt :: "real \<Rightarrow> real \<Rightarrow> real \<Rightarrow> real" where
  "npf_pmt rate nper pv =
     (let temp = (1 + rate) powr nper;
          fact = (if rate = 0 then nper else (temp - 1) / rate)
      in - (pv * temp) / fact)"

definition calculate_loan_payment :: "real \<Rightarrow> real \<Rightarrow> real \<Rightarrow> real \<Rightarrow> error + real" where
  "calculate_loan_payment principal' annual_rate years payments_per_year =
     (if principal' \<le> 0 then Inr 0
      else if annual_rate < 0 then Inl (ValueError ''Annual rate cannot be negative.'')
      else if years \<le> 0 then Inl (ValueError ''Loan term must be positive.'')
      else if payments_per_year \<le> 0 then Inl (ValueError ''Payments per year must be positive.'')
      else if annual_rate = 0 then Inr (principal' / (years * payments_per_year))
      else
        (let periodic_rate = annual_rate / payments_per_year;
             num_payments = years * payments_per_year
         in Inr (- npf_pmt periodic_rate num_payments principal')))"

subsection \<open>The amortization schedule\<close>

text \<open>One dictionary appended to \<^verbatim>\<open>schedule\<close>, with the keys of the source in order.\<close>

record row =
  payment_no :: int
  starting_balance :: real
  payment :: real
  principal_paid :: real
  interest_paid :: real
  ending_balance :: real

text \<open>The local variables of the \<^verbatim>\<open>while\<close> loop that live across iterations.\<close>

record loop_state =
  current_balance :: real
  total_payment :: real
  total_interest_paid :: real
  payment_num :: int
  schedule :: "row list"

text \<open>
  The body of the loop from \<^verbatim>\<open>payment_num += 1\<close> to \<^verbatim>\<open>schedule.append\<close>:
  the interest of the period, the clamp of the last payment, the new balance, the guard
  against a negative balance, and the appended row.
\<close>

definition amort_step :: "real \<Rightarrow> loop_state \<Rightarrow> loop_state" where
  "amort_step periodic_rate s =
     (let n = payment_num s + 1;
          ip = current_balance s * periodic_rate;
          pp0 = total_payment s - ip;
          clamp = (pp0 > current_balance s);
          pp1 = (if clamp then current_balance s else pp0);
          tp = (if clamp then pp1 + ip else total_payment s);
          bal1 = current_balance s - pp1;
          tip = total_interest_paid s + ip;
          pp2 = (if bal1 < 0 then pp1 + bal1 else pp1);
          bal2 = (if bal1 < 0 then 0 else bal1)
      in \<lparr> current_balance = bal2,
           total_payment = tp,
           total_interest_paid = tip,
           payment_num = n,
           schedule = schedule s @
             [\<lparr> payment_no = n,
                starting_balance = bal2 + pp2,
                payment = tp,
                principal_paid = pp2,
                interest_paid = ip,
                ending_balance = bal2 \<rparr>] \<rparr>)"

text \<open>
  The loop itself: the \<^verbatim>\<open>while\<close> condition, one step, the \<^verbatim>\<open>break\<close> when the
  balance is at most one cent, and otherwise the reset of \<^verbatim>\<open>total_payment\<close>.
\<close>

function amort_loop :: "real \<Rightarrow> real \<Rightarrow> real \<Rightarrow> real \<Rightarrow> real \<Rightarrow> loop_state \<Rightarrow> loop_state" where
  "amort_loop years payments_per_year periodic_rate regular_payment extra_payment s =
     (if current_balance s > 0.01 \<and> of_int (payment_num s) < years * payments_per_year * 2 then
        (let s' = amort_step periodic_rate s
         in if current_balance s' \<le> 0.01 then s'
            else amort_loop years payments_per_year periodic_rate regular_payment extra_payment
                   (s'\<lparr> total_payment := regular_payment + extra_payment \<rparr>))
      else s)"
  by pat_completeness auto
termination
  by (relation "measure (\<lambda>(years, payments_per_year, periodic_rate, regular_payment, extra_payment, s).
        nat (\<lceil>years * payments_per_year * 2\<rceil> - payment_num s))")
     (auto simp: less_ceiling_iff amort_step_def Let_def)

declare amort_loop.simps [simp del]

text \<open>
  The value returned: a tuple of five components on the main path, and the tuple of six
  components \<^verbatim>\<open>pd.DataFrame(), 0, 0, 0, 0, 0\<close> of the first line.
\<close>

datatype amort_ret =
    Ret5 "row list" real real real int
  | Ret6 "row list" real real real real real

definition calculate_amortization ::
  "real \<Rightarrow> real \<Rightarrow> real \<Rightarrow> real \<Rightarrow> real \<Rightarrow> error + amort_ret" where
  "calculate_amortization principal' annual_rate years payments_per_year extra_payment =
     (if principal' \<le> 0 then Inr (Ret6 [] 0 0 0 0 0)
      else
        (case calculate_loan_payment principal' annual_rate years payments_per_year of
           Inl e \<Rightarrow> Inl e
         | Inr p \<Rightarrow>
            (let regular_payment =
                   (if p = 0 \<and> principal' > 0 then principal' / (years * payments_per_year) else p);
                 periodic_rate = annual_rate / payments_per_year;
                 s = amort_loop years payments_per_year periodic_rate regular_payment extra_payment
                       \<lparr> current_balance = principal',
                         total_payment = regular_payment + extra_payment,
                         total_interest_paid = 0,
                         payment_num = 0,
                         schedule = [] \<rparr>
             in if schedule s = [] then Inl (KeyError ''Payment'')
                else Inr (Ret5 (schedule s) regular_payment
                            (sum_list (map payment (schedule s)))
                            (total_interest_paid s) (payment_num s)))))"

section \<open>Interest calculators\<close>

subsection \<open>Python values and the type checks\<close>

text \<open>
  The interest functions test the types of their arguments with \<^verbatim>\<open>isinstance\<close>, so
  their arguments are Python values. \<^verbatim>\<open>bool\<close> is a subclass of \<^verbatim>\<open>int\<close>.
\<close>

datatype pyval =
    PInt int
  | PFloat real
  | PBool bool
  | PStr string
  | PNone

fun isinstance_int :: "pyval \<Rightarrow> bool" where
  "isinstance_int (PInt i) = True"
| "isinstance_int (PBool b) = True"
| "isinstance_int v = False"

fun isinstance_int_float :: "pyval \<Rightarrow> bool" where
  "isinstance_int_float (PInt i) = True"
| "isinstance_int_float (PFloat x) = True"
| "isinstance_int_float (PBool b) = True"
| "isinstance_int_float v = False"

text \<open>The number a numeric value stands for in arithmetic and comparisons.\<close>

fun num :: "pyval \<Rightarrow> real" where
  "num (PInt i) = of_int i"
| "num (PFloat x) = x"
| "num (PBool b) = (if b then 1 else 0)"
| "num v = 0"

subsection \<open>Growth with contributions (pages/1 Interest Calculator)\<close>

text \<open>
  The function returns a triple; \<open>Inf3\<close> is the triple
  \<^verbatim>\<open>(float('inf'), float('inf'), float('inf'))\<close>. Inside the body, \<open>Inl\<close> of an
  intermediate result leaves the function at once (a \<^verbatim>\<open>raise\<close> or a
  \<^verbatim>\<open>return\<close>) and \<open>Inr\<close> carries the value on.
\<close>

datatype fv_ret =
    Inf3
  | Ret3 real real real

text \<open>Step 1 of the source: the future value of the initial principal.\<close>

definition principal_fv_part ::
  "real \<Rightarrow> real \<Rightarrow> real \<Rightarrow> bool \<Rightarrow> real \<Rightarrow> (error + fv_ret) + real" where
  "principal_fv_part principal' rate time is_continuous n_compound =
     (if principal' > 0 then
        (if is_continuous then
           (if rate = 0 then Inr principal'
            else
              (let rt = rate * time
               in if rt > 700 then Inl (Inr Inf3)
                  else Inr (principal' * exp rt)))
         else
           (if n_compound \<le> 0 then Inl (Inl (ValueError ''Compounding frequency (n) must be positive.''))
            else if rate = 0 then Inr principal'
            else
              (let base = 1 + rate / n_compound;
                   exponent = n_compound * time
               in if exponent > 10000 \<and> base > 1.00001
                     \<and> ln (if principal' > 0 then principal' else 1)
                         + exponent * ln (if base > 1 then base else 1) > 700
                  then Inl (Inr Inf3)
                  else Inr (principal' * (base powr exponent)))))
      else Inr 0)"

text \<open>
  Step 2 of the source: the future value of the contributions, with the total of the
  contributions. The tests against \<^verbatim>\<open>float('inf')\<close> after the annuity formula
  never succeed on the finite numbers of this model.
\<close>

definition annuity_fv_part ::
  "real \<Rightarrow> real \<Rightarrow> bool \<Rightarrow> real \<Rightarrow> real \<Rightarrow> real \<Rightarrow> (error + fv_ret) + real \<times> real" where
  "annuity_fv_part rate time is_continuous n_compound contribution_amount contribution_frequency =
     (if contribution_amount > 0 \<and> contribution_frequency > 0 \<and> time > 0 then
        (let total_contributions = contribution_amount * contribution_frequency * time
         in if is_continuous then
              (let annual_contribution = contribution_amount * contribution_frequency
               in if rate = 0 then Inr (annual_contribution * time, total_contributions)
                  else
                    (let rt = rate * time
                     in if rt > 700 then Inl (Inr Inf3)
                        else Inr (annual_contribution * (exp rt - 1) / rate, total_contributions)))
            else
              (let num_total_periods = n_compound * time;
                   periodic_rate = rate / n_compound
               in if periodic_rate = 0 then Inr (contribution_amount * num_total_periods, total_contributions)
                  else
                    (let fv_factor = ((1 + periodic_rate) powr num_total_periods - 1) / periodic_rate
                     in Inr (contribution_amount * fv_factor, total_contributions))))
      else Inr (0, 0))"

definition future_value_with_contributions ::
  "pyval \<Rightarrow> pyval \<Rightarrow> pyval \<Rightarrow> pyval \<Rightarrow> pyval \<Rightarrow> pyval \<Rightarrow> error + fv_ret" where
  "future_value_with_contributions principal' rate time compound_type
       contribution_amount contribution_frequency =
     (if \<not> list_all isinstance_int_float [principal', rate, time, contribution_amount] then
        Inl (TypeError ''Principal, rate, time, and contribution amount must be numbers.'')
      else if \<not> isinstance_int contribution_frequency then
        Inl (TypeError ''Contribution frequency must be an integer.'')
      else if num principal' < 0 then Inl (ValueError ''Principal cannot be negative.'')
      else if num rate < 0 then Inl (ValueError ''Interest rate cannot be negative.'')
      else if num time < 0 then Inl (ValueError ''Time cannot be negative.'')
      else if num contribution_amount < 0 then
        Inl (ValueError ''Contribution amount cannot be negative.'')
      else if num contribution_frequency < 0 then
        Inl (ValueError ''Contribution frequency cannot be negative.'')
      else
        (let is_continuous = (compound_type = PStr ''continuously'')
         in if \<not> is_continuous \<and> isinstance_int compound_type \<and> num compound_type \<le> 0 then
              Inl (ValueError ''Compounding times per year must be positive.'')
            else
              (let n_compound =
                     (if \<not> is_continuous \<and> isinstance_int compound_type then num compound_type else 1)
               in case principal_fv_part (num principal') (num rate) (num time)
                         is_continuous n_compound of
                    Inl exit \<Rightarrow> exit
                  | Inr principal_fv \<Rightarrow>
                     (case annuity_fv_part (num rate) (num time) is_continuous n_compound
                             (num contribution_amount) (num contribution_frequency) of
                        Inl exit \<Rightarrow> exit
                      | Inr (annuity_fv, total_contributions) \<Rightarrow>
                         (let final_amount = principal_fv + annuity_fv;
                              total_interest =
                                max 0 (final_amount - num principal' - total_contributions)
                          in Inr (Ret3 final_amount total_interest total_contributions))))))"

subsection \<open>Growth of a lump sum (Old/Advanced Interest Calc)\<close>





section \<open>Notions used in the statements about the schedule\<close>




section \<open>Properties of the loan payment\<close>








text \<open>
  Claim C5. \<open>calculate_loan_payment\<close> raises \<open>ValueError\<close> when the annual rate is
  negative, the years are not positive or the payments per year are not positive, while
  every call with a principal that is not positive returns 0 instead of failing, whatever the
  other arguments are.
\<close>

theorem calculate_loan_payment_errors:
  "(principal' \<le> 0 \<longrightarrow>
      calculate_loan_payment principal' annual_rate years payments_per_year = Inr 0)
   \<and> (0 < principal' \<and> (annual_rate < 0 \<or> years \<le> 0 \<or> payments_per_year \<le> 0) \<longrightarrow>
        (\<exists>msg. calculate_loan_payment principal' annual_rate years payments_per_year
                = Inl (ValueError msg)))"
  by (auto simp: calculate_loan_payment_def)

theorem calculate_loan_payment_errors_witness:
  "calculate_loan_payment (-5) (-1) 0 0 = Inr 0
   \<and> (\<exists>msg. calculate_loan_payment 1000 (-1/100) 5 12 = Inl (ValueError msg))
   \<and> (\<exists>msg. calculate_loan_payment 1000 (1/20) 0 12 = Inl (ValueError msg))
   \<and> (\<exists>msg. calculate_loan_payment 1000 (1/20) 5 0 = Inl (ValueError msg))"
  using calculate_loan_payment_errors [of "-5" "-1" 0 0]
    calculate_loan_payment_errors [of 1000 "-1/100" 5 12]
    calculate_loan_payment_errors [of 1000 "1/20" 0 12]
    calculate_loan_payment_errors [of 1000 "1/20" 5 0]
  by simp

section \<open>Properties of the amortization schedule\<close>

subsection \<open>One iteration\<close>






subsection \<open>Unfolding the loop and an invariant rule\<close>





subsection \<open>Invariants of the loop\<close>







subsection \<open>The balance is paid off before the cap\<close>







subsection \<open>The returned tuple\<close>







subsection \<open>Schedules computed on concrete loans\<close>






subsection \<open>The claims about the schedule\<close>

text \<open>
  Claim C4. For a principal that is not positive the result is an empty schedule with all
  summary totals 0, in the same shape as a result with rows. The source returns the empty
  frame followed by five zeros, six components, where the main path returns five: at
  principal 0 the result is \<open>Ret6\<close>, and a loan of 100 gives a \<open>Ret5\<close>.
\<close>

theorem calculate_amortization_zero_principal_shape:
  "calculate_amortization 0 (13/200) 5 12 0 = Inr (Ret6 [] 0 0 0 0 0)
   \<and> calculate_amortization 100 0 1 1 0 =
       Inr (Ret5 [\<lparr> payment_no = 1, starting_balance = 100, payment = 100, principal_paid = 100,
                    interest_paid = 0, ending_balance = 0 \<rparr>] 100 100 0 1)"
  by (simp add: calculate_amortization_def calculate_loan_payment_def amort_loop.simps
      amort_step_def Let_def)












section \<open>Properties of the interest calculators\<close>

text \<open>
  Claim C10. Every call of \<open>future_value_with_contributions\<close> whose contribution
  frequency is not of integer type, a float such as 12.0 included, raises \<open>TypeError\<close>,
  whatever the other arguments are.
\<close>

theorem contribution_frequency_type_error:
  "\<not> isinstance_int contribution_frequency \<Longrightarrow>
     \<exists>msg. future_value_with_contributions principal' rate time compound_type
              contribution_amount contribution_frequency = Inl (TypeError msg)"
  by (simp add: future_value_with_contributions_def)

theorem contribution_frequency_type_error_witness:
  "\<not> isinstance_int (PFloat 12)
   \<and> (\<exists>msg. future_value_with_contributions (PFloat 1000) (PFloat (1/20)) (PInt 10) (PInt 12)
               (PFloat 100) (PFloat 12) = Inl (TypeError msg))"
  using contribution_frequency_type_error
    [of "PFloat 12" "PFloat 1000" "PFloat (1/20)" "PInt 10" "PInt 12" "PFloat 100"]
  by simp

subsection \<open>Lower bounds on the growth\<close>






















end
